theory Spec2Isabelle
  imports Main "HOL-Library.Word"
begin

unbundle bit_operations_syntax

section \<open>Python values and exceptions\<close>

text \<open>
  The values \<^verbatim>\<open>json.loads\<close> and \<^verbatim>\<open>resp.json()\<close> produce, and the values of the request
  payload. A \<^verbatim>\<open>dict\<close> is an association list read with \<open>map_of\<close> (a decoded
  dictionary holds each key once). A \<^verbatim>\<open>float\<close> is its IEEE-754 binary64 bit pattern.
\<close>

datatype json =
    JNull
  | JBool bool
  | JInt int
  | JFloat "64 word"
  | JStr string
  | JList "json list"
  | JObj "(string \<times> json) list"

text \<open>
  The exceptions a call can end in. \<open>RuntimeError\<close> carries its single argument, which
  the source takes from the response and is therefore any value. \<open>AttributeError t a\<close>
  is Python's "'t' object has no attribute 'a'". \<open>HTTPError\<close> is what
  \<^verbatim>\<open>raise_for_status\<close> raises; \<open>LibraryError\<close> is any other exception of requests,
  boto3 or json, by class name.
\<close>

datatype exc =
    RuntimeError json
  | AttributeError string string
  | HTTPError nat
  | LibraryError string

text \<open>Python's truth value of an object, as used by \<^verbatim>\<open>not x\<close> and \<^verbatim>\<open>x or y\<close>.\<close>

fun truthy :: "json \<Rightarrow> bool" where
  "truthy JNull = False"
| "truthy (JBool b) = b"
| "truthy (JInt n) = (n \<noteq> 0)"
| "truthy (JFloat w) = (w AND 0x7FFFFFFFFFFFFFFF \<noteq> 0)"
| "truthy (JStr s) = (s \<noteq> [])"
| "truthy (JList xs) = (xs \<noteq> [])"
| "truthy (JObj kvs) = (kvs \<noteq> [])"

definition py_or :: "json \<Rightarrow> json \<Rightarrow> json" where
  "py_or a b = (if truthy a then a else b)"

fun type_name :: "json \<Rightarrow> string" where
  "type_name JNull = ''NoneType''"
| "type_name (JBool b) = ''bool''"
| "type_name (JInt n) = ''int''"
| "type_name (JFloat w) = ''float''"
| "type_name (JStr s) = ''str''"
| "type_name (JList xs) = ''list''"
| "type_name (JObj kvs) = ''dict''"

text \<open>\<^verbatim>\<open>v.get(k, d)\<close>: a lookup with a default on a dict, AttributeError on anything else.\<close>

fun dict_get :: "json \<Rightarrow> string \<Rightarrow> json \<Rightarrow> exc + json" where
  "dict_get (JObj kvs) k d = Inr (case map_of kvs k of None \<Rightarrow> d | Some v \<Rightarrow> v)"
| "dict_get v k d = Inl (AttributeError (type_name v) ''get'')"

text \<open>Sequencing of statements that may raise: the first exception ends the call.\<close>

definition then_ok :: "exc + 'a \<Rightarrow> ('a \<Rightarrow> exc + 'b) \<Rightarrow> exc + 'b" where
  "then_ok r f = (case r of Inl e \<Rightarrow> Inl e | Inr v \<Rightarrow> f v)"

section \<open>Module constants (bindings.py, lines 8-22)\<close>

type_synonym environ = "string \<rightharpoonup> string"

definition getenv_default :: "environ \<Rightarrow> string \<Rightarrow> string \<Rightarrow> string" where
  "getenv_default env k d = (case env k of None \<Rightarrow> d | Some v \<Rightarrow> v)"

text \<open>
  \<^verbatim>\<open>str.lower\<close> on the bytes of the string: the letters A-Z are mapped to a-z. (Python
  also lower-cases letters outside ASCII; none of them yields a letter of
  "agentcore", so the comparison of line 66 is the same.)
\<close>

definition lower_char :: "char \<Rightarrow> char" where
  "lower_char c =
     (let n = (of_char c :: nat) in if 65 \<le> n \<and> n \<le> 90 then char_of (n + 32) else c)"

definition lower :: "string \<Rightarrow> string" where
  "lower s = map lower_char s"

definition CONTRACT_VERSION :: string where
  "CONTRACT_VERSION = ''v1''"

record settings =
  TOOL_GATEWAY_MODE :: string
  TOOL_GATEWAY_URL :: string
  TOOL_GATEWAY_RUNTIME_ARN :: "string option"
  TOOL_GATEWAY_QUALIFIER :: string
  AWS_REGION :: string

text \<open>The module-level assignments, evaluated once against the environment at import.\<close>

definition module_settings :: "environ \<Rightarrow> settings" where
  "module_settings env =
     \<lparr> TOOL_GATEWAY_MODE = lower (getenv_default env ''TOOL_GATEWAY_MODE'' ''http''),
       TOOL_GATEWAY_URL = getenv_default env ''TOOL_GATEWAY_URL'' ''http://localhost:8080'',
       TOOL_GATEWAY_RUNTIME_ARN = env ''TOOL_GATEWAY_RUNTIME_ARN'',
       TOOL_GATEWAY_QUALIFIER = getenv_default env ''TOOL_GATEWAY_QUALIFIER'' ''DEFAULT'',
       AWS_REGION =
         getenv_default env ''AWS_REGION''
           (getenv_default env ''AWS_DEFAULT_REGION'' ''us-east-1'') \<rparr>"

section \<open>Session identifier (lines 25-27)\<close>

text \<open>
  \<^verbatim>\<open>uuid.uuid4()\<close> is \<^verbatim>\<open>UUID(bytes=os.urandom(16), version=4)\<close>: the 128 random bits
  with the RFC 4122 variant and the version number written over them.
\<close>

definition uuid4 :: "128 word \<Rightarrow> 128 word" where
  "uuid4 r =
     (let i1 = r AND NOT (push_bit 48 0xc000);
          i2 = i1 OR push_bit 48 0x8000;
          i3 = i2 AND NOT (push_bit 64 0xf000)
      in i3 OR push_bit 76 4)"

definition hex_digit :: "nat \<Rightarrow> char" where
  "hex_digit d = ''0123456789abcdef'' ! (d mod 16)"

text \<open>\<^verbatim>\<open>'%x' % n\<close>: the hexadecimal digits of \<open>n\<close>, most significant first.\<close>

function to_hex :: "nat \<Rightarrow> string" where
  "to_hex n = (if n < 16 then [hex_digit n] else to_hex (n div 16) @ [hex_digit (n mod 16)])"
  by pat_completeness auto
termination
  by (relation "measure (\<lambda>n. n)") auto

declare to_hex.simps [simp del]

text \<open>\<^verbatim>\<open>UUID.hex\<close> is \<^verbatim>\<open>'%032x' % self.int\<close>: zero-padded on the left to width 32.\<close>

definition uuid_hex :: "128 word \<Rightarrow> string" where
  "uuid_hex u = (let s = to_hex (unat u) in replicate (32 - length s) (CHR ''0'') @ s)"

definition new_runtime_session_id :: "128 word \<Rightarrow> string" where
  "new_runtime_session_id r = ''session-'' @ uuid_hex (uuid4 r)"

section \<open>Transports (lines 30-68)\<close>

text \<open>
  The collaborators outside the module. \<open>requests_post url payload timeout\<close> is
  \<^verbatim>\<open>requests.post\<close>; its response carries the status code and what \<^verbatim>\<open>resp.json()\<close>
  gives. \<open>boto3_client service region\<close> is the import of boto3 and the construction
  of the client, which may raise. \<open>invoke_agent_runtime arn session body qualifier\<close>
  gives the outcome of reading the response stream. \<open>json_dumps\<close> and \<open>json_loads\<close>
  are the json module.
\<close>

record http_response =
  status_code :: nat
  json_body :: "exc + json"

record externals =
  requests_post :: "string \<Rightarrow> json \<Rightarrow> nat \<Rightarrow> exc + http_response"
  boto3_client :: "string \<Rightarrow> string \<Rightarrow> exc option"
  json_dumps :: "json \<Rightarrow> string"
  invoke_agent_runtime :: "string \<Rightarrow> string \<Rightarrow> string \<Rightarrow> string \<Rightarrow> exc + (exc + string)"
  json_loads :: "string \<Rightarrow> exc + json"

text \<open>
  The outbound invocations of the gateway, in the order they were attempted. Every
  transport function takes the log so far and returns it with its own invocation added.
\<close>

datatype outbound =
    HttpPost string json nat
  | InvokeAgentRuntime string string string string

definition raise_for_status :: "http_response \<Rightarrow> exc option" where
  "raise_for_status resp =
     (if 400 \<le> status_code resp \<and> status_code resp < 600
      then Some (HTTPError (status_code resp)) else None)"

definition call_tool_gateway_http ::
  "settings \<Rightarrow> externals \<Rightarrow> json \<Rightarrow> outbound list \<Rightarrow> (exc + json) \<times> outbound list" where
  "call_tool_gateway_http g x payload log =
     (let url = TOOL_GATEWAY_URL g @ ''/tools/invoke'';
          log' = log @ [HttpPost url payload 20]
      in case requests_post x url payload 20 of
           Inl e \<Rightarrow> (Inl e, log')
         | Inr resp \<Rightarrow>
             (case raise_for_status resp of
                Some e \<Rightarrow> (Inl e, log')
              | None \<Rightarrow> (json_body resp, log')))"

definition call_tool_gateway_agentcore ::
  "settings \<Rightarrow> externals \<Rightarrow> 128 word \<Rightarrow> json \<Rightarrow> outbound list
     \<Rightarrow> (exc + json) \<times> outbound list" where
  "call_tool_gateway_agentcore g x r payload log =
     (case TOOL_GATEWAY_RUNTIME_ARN g of
        None \<Rightarrow>
          (Inl (RuntimeError (JStr
             ''TOOL_GATEWAY_RUNTIME_ARN is required when TOOL_GATEWAY_MODE=agentcore'')), log)
      | Some arn \<Rightarrow>
          if arn = [] then
            (Inl (RuntimeError (JStr
               ''TOOL_GATEWAY_RUNTIME_ARN is required when TOOL_GATEWAY_MODE=agentcore'')), log)
          else
            (case boto3_client x ''bedrock-agentcore'' (AWS_REGION g) of
               Some e \<Rightarrow> (Inl e, log)
             | None \<Rightarrow>
                 (let body = json_dumps x payload;
                      sid = new_runtime_session_id r;
                      log' = log @ [InvokeAgentRuntime arn sid body (TOOL_GATEWAY_QUALIFIER g)]
                  in case invoke_agent_runtime x arn sid body (TOOL_GATEWAY_QUALIFIER g) of
                       Inl e \<Rightarrow> (Inl e, log')
                     | Inr stream \<Rightarrow>
                         (case stream of
                            Inl e \<Rightarrow> (Inl e, log')
                          | Inr raw \<Rightarrow> (json_loads x raw, log')))))"

definition call_tool_gateway ::
  "settings \<Rightarrow> externals \<Rightarrow> 128 word \<Rightarrow> json \<Rightarrow> outbound list
     \<Rightarrow> (exc + json) \<times> outbound list" where
  "call_tool_gateway g x r payload log =
     (if TOOL_GATEWAY_MODE g = ''agentcore''
      then call_tool_gateway_agentcore g x r payload log
      else call_tool_gateway_http g x payload log)"

section \<open>search_kb (lines 71-103)\<close>

definition getenv_json :: "environ \<Rightarrow> string \<Rightarrow> json" where
  "getenv_json env k = (case env k of None \<Rightarrow> JNull | Some v \<Rightarrow> JStr v)"

text \<open>Lines 78-85: the payload, built from the query and the environment of the call.\<close>

definition request_payload :: "environ \<Rightarrow> string \<Rightarrow> json" where
  "request_payload env query =
     JObj [ (''contract_version'', JStr CONTRACT_VERSION),
            (''tool_name'', JStr ''search_kb''),
            (''input'', JObj [(''query'', JStr query)]),
            (''tenant_id'', getenv_json env ''TENANT_ID''),
            (''user_id'', getenv_json env ''USER_ID''),
            (''correlation_id'', getenv_json env ''CORRELATION_ID'') ]"

definition missing_results_message :: string where
  "missing_results_message =
     ''Malformed tool response: missing '' @ [CHR 0x27] @ ''results'' @ [CHR 0x27]"

text \<open>Lines 89-103: the checks on the body the transport returned, in the source's order.\<close>

definition check_response :: "json \<Rightarrow> exc + json" where
  "check_response body =
     then_ok (dict_get body ''contract_version'' JNull) (\<lambda>cv.
       if cv \<noteq> JStr CONTRACT_VERSION
       then Inl (RuntimeError (JStr ''Tool Gateway contract version mismatch''))
       else
         then_ok (dict_get body ''ok'' JNull) (\<lambda>ok.
           if \<not> truthy ok then
             then_ok (dict_get body ''error'' (JObj [])) (\<lambda>error0.
               then_ok (dict_get (py_or error0 (JObj [])) ''message'' (JStr ''Tool call failed''))
                 (\<lambda>message. Inl (RuntimeError message)))
           else
             then_ok (dict_get body ''output'' (JObj [])) (\<lambda>output0.
               then_ok (dict_get (py_or output0 (JObj [])) ''results'' JNull) (\<lambda>results.
                 if results = JNull
                 then Inl (RuntimeError (JStr missing_results_message))
                 else Inr results))))"

definition search_kb ::
  "settings \<Rightarrow> externals \<Rightarrow> 128 word \<Rightarrow> environ \<Rightarrow> string \<Rightarrow> outbound list
     \<Rightarrow> (exc + json) \<times> outbound list" where
  "search_kb g x r env query log =
     (case call_tool_gateway g x r (request_payload env query) log of
        (Inl e, log') \<Rightarrow> (Inl e, log')
      | (Inr body, log') \<Rightarrow> (check_response body, log'))"

text \<open>
  The transport of the specification's scenarios: a mocked HTTP transport that answers
  every request with status 200 and the given body; the hosted runtime is not reachable.
\<close>

definition mocked_http :: "json \<Rightarrow> externals" where
  "mocked_http body =
     \<lparr> requests_post = (\<lambda>url payload timeout. Inr \<lparr> status_code = 200, json_body = Inr body \<rparr>),
       boto3_client = (\<lambda>service region. Some (LibraryError ''ImportError'')),
       json_dumps = (\<lambda>payload. []),
       invoke_agent_runtime = (\<lambda>arn sid body qualifier. Inl (LibraryError ''ClientError'')),
       json_loads = (\<lambda>raw. Inl (LibraryError ''JSONDecodeError'')) \<rparr>"

section \<open>The specification's error taxonomy\<close>









section \<open>Session identifier: length\<close>

lemma length_to_hex_le: "0 < k \<Longrightarrow> n < 16 ^ k \<Longrightarrow> length (to_hex n) \<le> k"
proof (induction n arbitrary: k rule: to_hex.induct)
  case (1 n)
  show ?case
  proof (cases "n < 16")
    case True
    with "1.prems" show ?thesis by (subst to_hex.simps) simp
  next
    case False
    from "1.prems" obtain j where k: "k = Suc j" by (cases k) auto
    from False "1.prems" k have j: "0 < j" by (cases j) auto
    from "1.prems" k have "n div 16 < 16 ^ j"
      by (simp add: less_mult_imp_div_less mult.commute)
    with "1.IH" [OF False j] have "length (to_hex (n div 16)) \<le> j" by simp
    with False k show ?thesis by (subst to_hex.simps) simp
  qed
qed

lemma length_uuid_hex: "length (uuid_hex u) = 32"
proof -
  have "unat u < 2 ^ 128" using unsigned_less [of u] by simp
  then have "unat u < 16 ^ 32" by simp
  then have "length (to_hex (unat u)) \<le> 32" by (intro length_to_hex_le) simp_all
  then show ?thesis by (simp add: uuid_hex_def Let_def)
qed

lemma length_new_runtime_session_id: "length (new_runtime_session_id r) = 40"
  by (simp add: new_runtime_session_id_def length_uuid_hex)

text \<open>
  Claim C5. Every session identifier produced by the generator, whatever the random
  bits, has at least 33 characters: the marker "session-" and the 32 hexadecimal
  digits of the UUID give 40.
\<close>

theorem session_id_min_length: "33 \<le> length (new_runtime_session_id r)"
  by (simp add: length_new_runtime_session_id)

section \<open>Response checks and dispatch\<close>

lemma check_response_JObj:
  "check_response (JObj kvs) =
     (if map_of kvs ''contract_version'' \<noteq> Some (JStr CONTRACT_VERSION)
      then Inl (RuntimeError (JStr ''Tool Gateway contract version mismatch''))
      else if \<not> truthy (case map_of kvs ''ok'' of None \<Rightarrow> JNull | Some v \<Rightarrow> v)
      then then_ok (dict_get (py_or (case map_of kvs ''error'' of None \<Rightarrow> JObj [] | Some v \<Rightarrow> v)
                        (JObj [])) ''message'' (JStr ''Tool call failed''))
             (\<lambda>message. Inl (RuntimeError message))
      else then_ok (dict_get (py_or (case map_of kvs ''output'' of None \<Rightarrow> JObj [] | Some v \<Rightarrow> v)
                        (JObj [])) ''results'' JNull)
             (\<lambda>results. if results = JNull
                then Inl (RuntimeError (JStr missing_results_message)) else Inr results))"
  by (auto simp: check_response_def then_ok_def split: option.splits)

lemma search_kb_body:
  "call_tool_gateway g x r (request_payload env q) log = (Inr body, log') \<Longrightarrow>
   search_kb g x r env q log = (check_response body, log')"
  by (simp add: search_kb_def)

lemma lower_http: "lower ''http'' = ''http''"
  by code_simp

lemma lower_AgentCore: "lower ''AgentCore'' = ''agentcore''"
  by code_simp

lemma lower_agentcroe: "lower ''agentcroe'' = ''agentcroe''"
  by code_simp

lemma mocked_http_call:
  "call_tool_gateway (module_settings Map.empty) (mocked_http body) r p log =
     (Inr body, log @ [HttpPost ''http://localhost:8080/tools/invoke'' p 20])"
  by (simp add: call_tool_gateway_def call_tool_gateway_http_def module_settings_def
      mocked_http_def getenv_default_def lower_http raise_for_status_def Let_def)

text \<open>
  Claim C1. Whenever the transport returns an envelope whose \<open>contract_version\<close> is absent
  or is not the client's \<open>CONTRACT_VERSION\<close>, \<open>search_kb\<close> raises the contract-mismatch
  RuntimeError and returns no value. Nothing is assumed about \<open>ok\<close>, \<open>output\<close>,
  \<open>error\<close> or any other field, so the outcome does not depend on them.
\<close>

theorem search_kb_contract_mismatch:
  assumes "call_tool_gateway g x r (request_payload env q) log = (Inr (JObj kvs), log')"
    and "map_of kvs ''contract_version'' \<noteq> Some (JStr CONTRACT_VERSION)"
  shows "search_kb g x r env q log =
           (Inl (RuntimeError (JStr ''Tool Gateway contract version mismatch'')), log')"
  using assms by (simp add: search_kb_body check_response_JObj)

text \<open>
  Claim C2 (amended). Whenever the transport returns an envelope with the client's contract
  version, \<open>ok\<close> true and an \<open>output\<close> mapping whose \<open>results\<close> field is bound to a
  value other than null, \<open>search_kb\<close> returns exactly that value.
\<close>

theorem search_kb_success:
  assumes "call_tool_gateway g x r (request_payload env q) log = (Inr (JObj kvs), log')"
    and "map_of kvs ''contract_version'' = Some (JStr CONTRACT_VERSION)"
    and "map_of kvs ''ok'' = Some (JBool True)"
    and "map_of kvs ''output'' = Some (JObj out)"
    and "map_of out ''results'' = Some v"
    and "v \<noteq> JNull"
  shows "search_kb g x r env q log = (Inr v, log')"
proof -
  from assms(5) have "out \<noteq> []" by auto
  with assms show ?thesis
    by (simp add: search_kb_body check_response_JObj py_or_def then_ok_def)
qed

text \<open>
  Claim C3 (amended). Whenever the transport returns an envelope with the client's contract
  version whose \<open>ok\<close> flag is absent or false, and whose \<open>error\<close> field is absent, has a
  false truth value (null, false, zero, empty) or is a mapping, \<open>search_kb\<close> raises a
  RuntimeError whose argument is \<open>error.message\<close> when \<open>error\<close> is a mapping holding
  that field, and "Tool call failed" otherwise.
\<close>

theorem search_kb_tool_failure:
  assumes "call_tool_gateway g x r (request_payload env q) log = (Inr (JObj kvs), log')"
    and "map_of kvs ''contract_version'' = Some (JStr CONTRACT_VERSION)"
    and "map_of kvs ''ok'' = None \<or> map_of kvs ''ok'' = Some (JBool False)"
    and "map_of kvs ''error'' = None
         \<or> (\<exists>v. map_of kvs ''error'' = Some v \<and> \<not> truthy v)
         \<or> (\<exists>ed. map_of kvs ''error'' = Some (JObj ed))"
  shows "search_kb g x r env q log =
           (Inl (RuntimeError
              (case map_of kvs ''error'' of
                 Some (JObj ed) \<Rightarrow>
                   (case map_of ed ''message'' of
                      Some m \<Rightarrow> m
                    | None \<Rightarrow> JStr ''Tool call failed'')
               | _ \<Rightarrow> JStr ''Tool call failed'')), log')"
proof -
  let ?err = "py_or (case map_of kvs ''error'' of None \<Rightarrow> JObj [] | Some v \<Rightarrow> v) (JObj [])"
  let ?msg = "case map_of kvs ''error'' of
                 Some (JObj ed) \<Rightarrow>
                   (case map_of ed ''message'' of
                      Some m \<Rightarrow> m
                    | None \<Rightarrow> JStr ''Tool call failed'')
               | _ \<Rightarrow> JStr ''Tool call failed''"
  from assms(3) have ok: "\<not> truthy (case map_of kvs ''ok'' of None \<Rightarrow> JNull | Some v \<Rightarrow> v)"
    by auto
  from assms(4) have "dict_get ?err ''message'' (JStr ''Tool call failed'') = Inr ?msg"
    by (auto simp: py_or_def split: json.splits option.splits)
  with assms(1,2) ok show ?thesis
    by (simp add: search_kb_body check_response_JObj then_ok_def)
qed

text \<open>
  Claim C4. Whenever the transport returns an envelope with the client's contract version
  and \<open>ok\<close> true whose \<open>output\<close> mapping has no \<open>results\<close> field, \<open>search_kb\<close> raises
  the malformed-response RuntimeError, whose message names the field \<open>results\<close>.
\<close>

theorem search_kb_missing_results:
  assumes "call_tool_gateway g x r (request_payload env q) log = (Inr (JObj kvs), log')"
    and "map_of kvs ''contract_version'' = Some (JStr CONTRACT_VERSION)"
    and "map_of kvs ''ok'' = Some (JBool True)"
    and "map_of kvs ''output'' = Some (JObj out)"
    and "map_of out ''results'' = None"
  shows "search_kb g x r env q log =
           (Inl (RuntimeError (JStr
              (''Malformed tool response: missing '' @ [CHR 0x27] @ ''results'' @ [CHR 0x27]))),
            log')"
  using assms
  by (simp add: search_kb_body check_response_JObj py_or_def then_ok_def
      missing_results_message_def)

text \<open>
  Claim C9. Whenever the transport returns an envelope with the client's contract version
  and \<open>ok\<close> true in which \<open>output\<close> is absent or null, or in which \<open>output\<close> is a
  mapping binding \<open>results\<close> to null, \<open>search_kb\<close> raises the malformed-response
  RuntimeError: it neither ends in another exception nor returns null.
\<close>

theorem search_kb_null_output_or_results:
  assumes "call_tool_gateway g x r (request_payload env q) log = (Inr (JObj kvs), log')"
    and "map_of kvs ''contract_version'' = Some (JStr CONTRACT_VERSION)"
    and "map_of kvs ''ok'' = Some (JBool True)"
    and "map_of kvs ''output'' = None
         \<or> map_of kvs ''output'' = Some JNull
         \<or> (\<exists>out. map_of kvs ''output'' = Some (JObj out) \<and> map_of out ''results'' = Some JNull)"
  shows "search_kb g x r env q log =
           (Inl (RuntimeError (JStr
              (''Malformed tool response: missing '' @ [CHR 0x27] @ ''results'' @ [CHR 0x27]))),
            log')"
  using assms
  by (auto simp: search_kb_body check_response_JObj py_or_def then_ok_def
      missing_results_message_def)

text \<open>
  Claim C6. In hosted-runtime mode with the runtime identifier absent (unset, or set to
  the empty string), the dispatcher and \<open>search_kb\<close> raise the configuration
  RuntimeError and the log of outbound invocations is returned as it was: no invocation
  is attempted.
\<close>

theorem agentcore_requires_runtime_arn:
  assumes "TOOL_GATEWAY_MODE g = ''agentcore''"
    and "TOOL_GATEWAY_RUNTIME_ARN g = None \<or> TOOL_GATEWAY_RUNTIME_ARN g = Some []"
  shows "call_tool_gateway g x r p log =
           (Inl (RuntimeError (JStr
              ''TOOL_GATEWAY_RUNTIME_ARN is required when TOOL_GATEWAY_MODE=agentcore'')), log)
         \<and> search_kb g x r env q log =
           (Inl (RuntimeError (JStr
              ''TOOL_GATEWAY_RUNTIME_ARN is required when TOOL_GATEWAY_MODE=agentcore'')), log)"
  using assms
  by (auto simp: search_kb_def call_tool_gateway_def call_tool_gateway_agentcore_def)

text \<open>
  Claim C10. For every value of the environment variable \<open>TOOL_GATEWAY_MODE\<close> whose
  lower-cased form is not "agentcore", the dispatcher is the direct-HTTP transport: it
  gives that transport's outcome, raises nothing of its own, and the one outbound
  invocation is the POST to the gateway URL.
\<close>

theorem unknown_mode_routes_to_http:
  assumes "lower m \<noteq> ''agentcore''"
  shows "call_tool_gateway (module_settings (env(''TOOL_GATEWAY_MODE'' \<mapsto> m))) x r p log =
           call_tool_gateway_http (module_settings (env(''TOOL_GATEWAY_MODE'' \<mapsto> m))) x p log
         \<and> snd (call_tool_gateway (module_settings (env(''TOOL_GATEWAY_MODE'' \<mapsto> m))) x r p log) =
           log @ [HttpPost
                   (getenv_default env ''TOOL_GATEWAY_URL'' ''http://localhost:8080''
                      @ ''/tools/invoke'') p 20]"
  using assms
  by (auto simp: call_tool_gateway_def call_tool_gateway_http_def module_settings_def
      getenv_default_def Let_def split: sum.splits option.splits)

theorem search_kb_contract_mismatch_witness:
  "search_kb (module_settings Map.empty)
     (mocked_http (JObj [(''contract_version'', JStr ''v2''), (''ok'', JBool True),
        (''output'', JObj [(''results'', JList [JObj [(''id'', JStr ''doc1'')]])])]))
     0 Map.empty ''refund policy'' [] =
   (Inl (RuntimeError (JStr ''Tool Gateway contract version mismatch'')),
    [HttpPost ''http://localhost:8080/tools/invoke''
       (request_payload Map.empty ''refund policy'') 20])"
  (is "search_kb ?g (mocked_http (JObj ?kvs)) ?r ?env ?q ?log = _")
proof -
  have h1: "call_tool_gateway ?g (mocked_http (JObj ?kvs)) ?r (request_payload ?env ?q) ?log =
      (Inr (JObj ?kvs), [HttpPost ''http://localhost:8080/tools/invoke''
         (request_payload ?env ?q) 20])"
    by (simp add: mocked_http_call)
  have h2: "map_of ?kvs ''contract_version'' \<noteq> Some (JStr CONTRACT_VERSION)"
    by (simp add: CONTRACT_VERSION_def)
  show ?thesis by (rule search_kb_contract_mismatch [OF h1 h2])
qed

theorem search_kb_success_witness:
  "search_kb (module_settings Map.empty)
     (mocked_http (JObj [(''contract_version'', JStr ''v1''), (''ok'', JBool True),
        (''output'', JObj [(''results'', JList [JObj [(''id'', JStr ''doc1'')]])])]))
     0 Map.empty ''refund policy'' [] =
   (Inr (JList [JObj [(''id'', JStr ''doc1'')]]),
    [HttpPost ''http://localhost:8080/tools/invoke''
       (request_payload Map.empty ''refund policy'') 20])"
  (is "search_kb ?g (mocked_http (JObj ?kvs)) ?r ?env ?q ?log = _")
proof -
  have h1: "call_tool_gateway ?g (mocked_http (JObj ?kvs)) ?r (request_payload ?env ?q) ?log =
      (Inr (JObj ?kvs), [HttpPost ''http://localhost:8080/tools/invoke''
         (request_payload ?env ?q) 20])"
    by (simp add: mocked_http_call)
  have h2: "map_of ?kvs ''contract_version'' = Some (JStr CONTRACT_VERSION)"
    by (simp add: CONTRACT_VERSION_def)
  have h3: "map_of ?kvs ''ok'' = Some (JBool True)" by simp
  have h4: "map_of ?kvs ''output'' =
      Some (JObj [(''results'', JList [JObj [(''id'', JStr ''doc1'')]])])" by simp
  have h5: "map_of [(''results'', JList [JObj [(''id'', JStr ''doc1'')]])] ''results'' =
      Some (JList [JObj [(''id'', JStr ''doc1'')]])" by simp
  have h6: "JList [JObj [(''id'', JStr ''doc1'')]] \<noteq> JNull" by simp
  show ?thesis by (rule search_kb_success [OF h1 h2 h3 h4 h5 h6])
qed

text \<open>
  C2 as stated fails where \<open>results\<close> is present and bound to null: line 100 raises
  instead of returning the field's value.
\<close>

theorem search_kb_null_results_counterexample:
  "fst (search_kb (module_settings Map.empty)
     (mocked_http (JObj [(''contract_version'', JStr ''v1''), (''ok'', JBool True),
        (''output'', JObj [(''results'', JNull)])]))
     0 Map.empty ''refund policy'' []) =
     Inl (RuntimeError (JStr
        (''Malformed tool response: missing '' @ [CHR 0x27] @ ''results'' @ [CHR 0x27])))
   \<and> fst (search_kb (module_settings Map.empty)
     (mocked_http (JObj [(''contract_version'', JStr ''v1''), (''ok'', JBool True),
        (''output'', JObj [(''results'', JNull)])]))
     0 Map.empty ''refund policy'' []) \<noteq> Inr JNull"
  by (simp add: search_kb_def mocked_http_call check_response_JObj py_or_def then_ok_def
      CONTRACT_VERSION_def missing_results_message_def)

theorem search_kb_tool_failure_witness:
  "search_kb (module_settings Map.empty)
     (mocked_http (JObj [(''contract_version'', JStr ''v1''), (''ok'', JBool False),
        (''error'', JObj [(''message'', JStr ''index unavailable'')])]))
     0 Map.empty ''refund policy'' [] =
   (Inl (RuntimeError (JStr ''index unavailable'')),
    [HttpPost ''http://localhost:8080/tools/invoke''
       (request_payload Map.empty ''refund policy'') 20])
   \<and> search_kb (module_settings Map.empty)
     (mocked_http (JObj [(''contract_version'', JStr ''v1'')]))
     0 Map.empty ''refund policy'' [] =
   (Inl (RuntimeError (JStr ''Tool call failed'')),
    [HttpPost ''http://localhost:8080/tools/invoke''
       (request_payload Map.empty ''refund policy'') 20])"
  (is "search_kb ?g (mocked_http (JObj ?kvs1)) ?r ?env ?q ?log = _
       \<and> search_kb _ (mocked_http (JObj ?kvs2)) _ _ _ _ = _")
proof -
  have c1: "call_tool_gateway ?g (mocked_http (JObj ?kvs1)) ?r (request_payload ?env ?q) ?log =
      (Inr (JObj ?kvs1), [HttpPost ''http://localhost:8080/tools/invoke''
         (request_payload ?env ?q) 20])"
    by (simp add: mocked_http_call)
  have c2: "call_tool_gateway ?g (mocked_http (JObj ?kvs2)) ?r (request_payload ?env ?q) ?log =
      (Inr (JObj ?kvs2), [HttpPost ''http://localhost:8080/tools/invoke''
         (request_payload ?env ?q) 20])"
    by (simp add: mocked_http_call)
  have v1: "map_of ?kvs1 ''contract_version'' = Some (JStr CONTRACT_VERSION)"
    by (simp add: CONTRACT_VERSION_def)
  have v2: "map_of ?kvs2 ''contract_version'' = Some (JStr CONTRACT_VERSION)"
    by (simp add: CONTRACT_VERSION_def)
  have ok1: "map_of ?kvs1 ''ok'' = None \<or> map_of ?kvs1 ''ok'' = Some (JBool False)" by simp
  have ok2: "map_of ?kvs2 ''ok'' = None \<or> map_of ?kvs2 ''ok'' = Some (JBool False)" by simp
  have e1: "map_of ?kvs1 ''error'' = None
         \<or> (\<exists>v. map_of ?kvs1 ''error'' = Some v \<and> \<not> truthy v)
         \<or> (\<exists>ed. map_of ?kvs1 ''error'' = Some (JObj ed))" by simp
  have e2: "map_of ?kvs2 ''error'' = None
         \<or> (\<exists>v. map_of ?kvs2 ''error'' = Some v \<and> \<not> truthy v)
         \<or> (\<exists>ed. map_of ?kvs2 ''error'' = Some (JObj ed))" by simp
  from search_kb_tool_failure [OF c1 v1 ok1 e1] search_kb_tool_failure [OF c2 v2 ok2 e2]
  show ?thesis by simp
qed

text \<open>
  C3 as stated fails where \<open>error\<close> is a non-empty string: line 95 calls \<^verbatim>\<open>.get\<close> on it
  and the call ends in an AttributeError, not in the fallback tool failure.
\<close>

theorem search_kb_error_not_mapping_counterexample:
  "fst (search_kb (module_settings Map.empty)
     (mocked_http (JObj [(''contract_version'', JStr ''v1''), (''ok'', JBool False),
        (''error'', JStr ''boom'')]))
     0 Map.empty ''refund policy'' []) = Inl (AttributeError ''str'' ''get'')
   \<and> fst (search_kb (module_settings Map.empty)
     (mocked_http (JObj [(''contract_version'', JStr ''v1''), (''ok'', JBool False),
        (''error'', JStr ''boom'')]))
     0 Map.empty ''refund policy'' []) \<noteq> Inl (RuntimeError (JStr ''Tool call failed''))"
  by (simp add: search_kb_def mocked_http_call check_response_JObj py_or_def then_ok_def
      CONTRACT_VERSION_def)

theorem search_kb_missing_results_witness:
  "search_kb (module_settings Map.empty)
     (mocked_http (JObj [(''contract_version'', JStr ''v1''), (''ok'', JBool True),
        (''output'', JObj [(''hits'', JList [])])]))
     0 Map.empty ''refund policy'' [] =
   (Inl (RuntimeError (JStr
      (''Malformed tool response: missing '' @ [CHR 0x27] @ ''results'' @ [CHR 0x27]))),
    [HttpPost ''http://localhost:8080/tools/invoke''
       (request_payload Map.empty ''refund policy'') 20])"
  (is "search_kb ?g (mocked_http (JObj ?kvs)) ?r ?env ?q ?log = _")
proof -
  have h1: "call_tool_gateway ?g (mocked_http (JObj ?kvs)) ?r (request_payload ?env ?q) ?log =
      (Inr (JObj ?kvs), [HttpPost ''http://localhost:8080/tools/invoke''
         (request_payload ?env ?q) 20])"
    by (simp add: mocked_http_call)
  have h2: "map_of ?kvs ''contract_version'' = Some (JStr CONTRACT_VERSION)"
    by (simp add: CONTRACT_VERSION_def)
  have h3: "map_of ?kvs ''ok'' = Some (JBool True)" by simp
  have h4: "map_of ?kvs ''output'' = Some (JObj [(''hits'', JList [])])" by simp
  have h5: "map_of [(''hits'', JList [])] ''results'' = None" by simp
  show ?thesis by (rule search_kb_missing_results [OF h1 h2 h3 h4 h5])
qed

theorem search_kb_null_output_or_results_witness:
  "search_kb (module_settings Map.empty)
     (mocked_http (JObj [(''contract_version'', JStr ''v1''), (''ok'', JBool True),
        (''output'', JNull)]))
     0 Map.empty ''refund policy'' [] =
   (Inl (RuntimeError (JStr
      (''Malformed tool response: missing '' @ [CHR 0x27] @ ''results'' @ [CHR 0x27]))),
    [HttpPost ''http://localhost:8080/tools/invoke''
       (request_payload Map.empty ''refund policy'') 20])
   \<and> search_kb (module_settings Map.empty)
     (mocked_http (JObj [(''contract_version'', JStr ''v1''), (''ok'', JBool True),
        (''output'', JObj [(''results'', JNull)])]))
     0 Map.empty ''refund policy'' [] =
   (Inl (RuntimeError (JStr
      (''Malformed tool response: missing '' @ [CHR 0x27] @ ''results'' @ [CHR 0x27]))),
    [HttpPost ''http://localhost:8080/tools/invoke''
       (request_payload Map.empty ''refund policy'') 20])"
  (is "search_kb ?g (mocked_http (JObj ?kvs1)) ?r ?env ?q ?log = _
       \<and> search_kb _ (mocked_http (JObj ?kvs2)) _ _ _ _ = _")
proof -
  have c1: "call_tool_gateway ?g (mocked_http (JObj ?kvs1)) ?r (request_payload ?env ?q) ?log =
      (Inr (JObj ?kvs1), [HttpPost ''http://localhost:8080/tools/invoke''
         (request_payload ?env ?q) 20])"
    by (simp add: mocked_http_call)
  have c2: "call_tool_gateway ?g (mocked_http (JObj ?kvs2)) ?r (request_payload ?env ?q) ?log =
      (Inr (JObj ?kvs2), [HttpPost ''http://localhost:8080/tools/invoke''
         (request_payload ?env ?q) 20])"
    by (simp add: mocked_http_call)
  have v1: "map_of ?kvs1 ''contract_version'' = Some (JStr CONTRACT_VERSION)"
    by (simp add: CONTRACT_VERSION_def)
  have v2: "map_of ?kvs2 ''contract_version'' = Some (JStr CONTRACT_VERSION)"
    by (simp add: CONTRACT_VERSION_def)
  have ok1: "map_of ?kvs1 ''ok'' = Some (JBool True)" by simp
  have ok2: "map_of ?kvs2 ''ok'' = Some (JBool True)" by simp
  have o1: "map_of ?kvs1 ''output'' = None
         \<or> map_of ?kvs1 ''output'' = Some JNull
         \<or> (\<exists>out. map_of ?kvs1 ''output'' = Some (JObj out)
               \<and> map_of out ''results'' = Some JNull)" by simp
  have o2: "map_of ?kvs2 ''output'' = None
         \<or> map_of ?kvs2 ''output'' = Some JNull
         \<or> (\<exists>out. map_of ?kvs2 ''output'' = Some (JObj out)
               \<and> map_of out ''results'' = Some JNull)" by simp
  from search_kb_null_output_or_results [OF c1 v1 ok1 o1]
       search_kb_null_output_or_results [OF c2 v2 ok2 o2]
  show ?thesis by simp
qed


theorem agentcore_requires_runtime_arn_witness:
  "TOOL_GATEWAY_MODE (module_settings [''TOOL_GATEWAY_MODE'' \<mapsto> ''AgentCore'']) = ''agentcore''
   \<and> search_kb (module_settings [''TOOL_GATEWAY_MODE'' \<mapsto> ''AgentCore''])
       (mocked_http (JObj [])) 0 Map.empty ''refund policy'' [] =
     (Inl (RuntimeError (JStr
        ''TOOL_GATEWAY_RUNTIME_ARN is required when TOOL_GATEWAY_MODE=agentcore'')), [])"
proof -
  have h1: "TOOL_GATEWAY_MODE (module_settings [''TOOL_GATEWAY_MODE'' \<mapsto> ''AgentCore'']) =
      ''agentcore''"
    by (simp add: module_settings_def getenv_default_def lower_AgentCore)
  have h2: "TOOL_GATEWAY_RUNTIME_ARN (module_settings [''TOOL_GATEWAY_MODE'' \<mapsto> ''AgentCore'']) = None
      \<or> TOOL_GATEWAY_RUNTIME_ARN (module_settings [''TOOL_GATEWAY_MODE'' \<mapsto> ''AgentCore'']) = Some []"
    by (simp add: module_settings_def)
  from agentcore_requires_runtime_arn [OF h1 h2] h1 show ?thesis by simp
qed

theorem unknown_mode_routes_to_http_witness:
  "lower ''agentcroe'' \<noteq> ''agentcore''
   \<and> call_tool_gateway (module_settings [''TOOL_GATEWAY_MODE'' \<mapsto> ''agentcroe''])
       (mocked_http (JObj [(''contract_version'', JStr ''v1'')])) 0 (JObj []) [] =
     (Inr (JObj [(''contract_version'', JStr ''v1'')]),
      [HttpPost ''http://localhost:8080/tools/invoke'' (JObj []) 20])"
proof -
  have h: "lower ''agentcroe'' \<noteq> ''agentcore''"
    by (simp add: lower_agentcroe)
  have "call_tool_gateway_http (module_settings [''TOOL_GATEWAY_MODE'' \<mapsto> ''agentcroe''])
       (mocked_http (JObj [(''contract_version'', JStr ''v1'')])) (JObj []) [] =
     (Inr (JObj [(''contract_version'', JStr ''v1'')]),
      [HttpPost ''http://localhost:8080/tools/invoke'' (JObj []) 20])"
    by (simp add: call_tool_gateway_http_def module_settings_def mocked_http_def
        getenv_default_def raise_for_status_def Let_def)
  with unknown_mode_routes_to_http [OF h, of Map.empty] h show ?thesis by simp
qed

section \<open>Failure kinds and the request envelope\<close>












text \<open>
  Claim C8. For every query \<open>q\<close>, \<open>search_kb\<close> hands the dispatcher the envelope \<open>P\<close> whose
  \<open>contract_version\<close> is \<open>CONTRACT_VERSION\<close>, whose \<open>tool_name\<close> is "search_kb", whose
  \<open>input\<close> is the mapping of \<open>query\<close> to \<open>q\<close>, and whose \<open>tenant_id\<close>, \<open>user_id\<close> and
  \<open>correlation_id\<close> are the environment's values, null when unset. What goes out is
  exactly this: in HTTP mode one POST of \<open>P\<close> to the gateway URL with timeout 20; in
  hosted-runtime mode, once the runtime identifier is set and the client is built, one
  invocation of the configured runtime with a fresh session identifier, the serialised
  \<open>P\<close> and the configured qualifier; and nothing otherwise.
\<close>

theorem search_kb_request_envelope:
  "(let P = JObj [ (''contract_version'', JStr CONTRACT_VERSION),
                   (''tool_name'', JStr ''search_kb''),
                   (''input'', JObj [(''query'', JStr q)]),
                   (''tenant_id'', case env ''TENANT_ID'' of None \<Rightarrow> JNull | Some s \<Rightarrow> JStr s),
                   (''user_id'', case env ''USER_ID'' of None \<Rightarrow> JNull | Some s \<Rightarrow> JStr s),
                   (''correlation_id'',
                      case env ''CORRELATION_ID'' of None \<Rightarrow> JNull | Some s \<Rightarrow> JStr s) ]
    in search_kb g x r env q log =
         (case call_tool_gateway g x r P log of
            (Inl e, log') \<Rightarrow> (Inl e, log')
          | (Inr body, log') \<Rightarrow> (check_response body, log'))
       \<and> snd (search_kb g x r env q log) =
         (if TOOL_GATEWAY_MODE g = ''agentcore''
          then (case TOOL_GATEWAY_RUNTIME_ARN g of
                  None \<Rightarrow> log
                | Some arn \<Rightarrow>
                    if arn = [] then log
                    else (case boto3_client x ''bedrock-agentcore'' (AWS_REGION g) of
                            Some e \<Rightarrow> log
                          | None \<Rightarrow>
                              log @ [InvokeAgentRuntime arn (new_runtime_session_id r)
                                       (json_dumps x P) (TOOL_GATEWAY_QUALIFIER g)]))
          else log @ [HttpPost (TOOL_GATEWAY_URL g @ ''/tools/invoke'') P 20]))"
proof -
  have sent: "snd (call_tool_gateway g x r p log) =
         (if TOOL_GATEWAY_MODE g = ''agentcore''
          then (case TOOL_GATEWAY_RUNTIME_ARN g of
                  None \<Rightarrow> log
                | Some arn \<Rightarrow>
                    if arn = [] then log
                    else (case boto3_client x ''bedrock-agentcore'' (AWS_REGION g) of
                            Some e \<Rightarrow> log
                          | None \<Rightarrow>
                              log @ [InvokeAgentRuntime arn (new_runtime_session_id r)
                                       (json_dumps x p) (TOOL_GATEWAY_QUALIFIER g)]))
          else log @ [HttpPost (TOOL_GATEWAY_URL g @ ''/tools/invoke'') p 20])" for p
    by (auto simp: call_tool_gateway_def call_tool_gateway_http_def
        call_tool_gateway_agentcore_def Let_def split: sum.splits option.splits)
  have snd_sk: "snd (search_kb g x r env q log) =
      snd (call_tool_gateway g x r (request_payload env q) log)"
    by (simp add: search_kb_def split: prod.splits sum.splits)
  have payload: "request_payload env q =
      JObj [ (''contract_version'', JStr CONTRACT_VERSION),
             (''tool_name'', JStr ''search_kb''),
             (''input'', JObj [(''query'', JStr q)]),
             (''tenant_id'', case env ''TENANT_ID'' of None \<Rightarrow> JNull | Some s \<Rightarrow> JStr s),
             (''user_id'', case env ''USER_ID'' of None \<Rightarrow> JNull | Some s \<Rightarrow> JStr s),
             (''correlation_id'',
                case env ''CORRELATION_ID'' of None \<Rightarrow> JNull | Some s \<Rightarrow> JStr s) ]"
    by (simp add: request_payload_def getenv_json_def)
  show ?thesis
    unfolding Let_def payload [symmetric] snd_sk sent
    by (simp add: search_kb_def)
qed


lemma mode_http: "TOOL_GATEWAY_MODE (module_settings Map.empty) \<noteq> ''agentcore''"
  by (simp add: module_settings_def getenv_default_def lower_http)




theorem search_kb_request_envelope_witness:
  "search_kb (module_settings Map.empty)
     (mocked_http (JObj [(''contract_version'', JStr ''v1''), (''ok'', JBool True),
        (''output'', JObj [(''results'', JList [])])]))
     0 [''TENANT_ID'' \<mapsto> ''acme''] ''refund policy'' [] =
   (Inr (JList []),
    [HttpPost ''http://localhost:8080/tools/invoke''
       (JObj [ (''contract_version'', JStr ''v1''),
               (''tool_name'', JStr ''search_kb''),
               (''input'', JObj [(''query'', JStr ''refund policy'')]),
               (''tenant_id'', JStr ''acme''),
               (''user_id'', JNull),
               (''correlation_id'', JNull) ]) 20])"
proof -
  let ?B = "JObj [(''contract_version'', JStr ''v1''), (''ok'', JBool True),
        (''output'', JObj [(''results'', JList [])])]"
  have c: "check_response ?B = Inr (JList [])"
    by (simp add: check_response_JObj py_or_def then_ok_def CONTRACT_VERSION_def)
  from search_kb_request_envelope
    [of "''refund policy''" "[''TENANT_ID'' \<mapsto> ''acme'']" "module_settings Map.empty"
        "mocked_http ?B" 0 "[]"]
  moreover have "TOOL_GATEWAY_URL (module_settings Map.empty) = ''http://localhost:8080''"
    by (simp add: module_settings_def getenv_default_def)
  ultimately show ?thesis
    by (simp add: Let_def mocked_http_call c mode_http CONTRACT_VERSION_def prod_eq_iff)
qed

end
